theory Spec2Isabelle
  imports Complex_Main
begin

section \<open>Data model of \<open>system_monitor.py\<close>\<close>

text \<open>
  The dataclass \<open>PerformanceMetrics\<close>. Python floats are modelled as reals: the scorer
  only compares them with integer constants, and the order of the finite floats is the
  order of the reals. An \<open>Optional\<close> field is an \<open>option\<close>.
\<close>

record PerformanceMetrics =
  cpu_percent :: real
  memory_percent :: real
  disk_percent :: real
  network_io :: "(string \<times> int) list"
  load_average :: "real \<times> real \<times> real"
  temperature :: "real option"
  fan_speed :: "int option"

text \<open>
  The health assessment is a Python dict built by a dict literal: an association list
  from key to value, in insertion order. Subscripting a dict with a missing key raises
  \<open>KeyError\<close>; the other errors are those that \<open>time.sleep\<close> can raise.
\<close>

datatype pyval = PInt int | PStr string | PStrList "string list"

type_synonym pydict = "(string \<times> pyval) list"

datatype py_error = KeyError | ValueError | OverflowError | OSError

definition keys :: "pydict \<Rightarrow> string list" where
  "keys d = map fst d"

definition subscript :: "pydict \<Rightarrow> string \<Rightarrow> py_error + pyval" where
  "subscript d k = (case map_of d k of None \<Rightarrow> Inl KeyError | Some v \<Rightarrow> Inr v)"

definition get_int :: "pydict \<Rightarrow> string \<Rightarrow> int option" where
  "get_int d k = (case map_of d k of Some (PInt n) \<Rightarrow> Some n | _ \<Rightarrow> None)"

definition get_str :: "pydict \<Rightarrow> string \<Rightarrow> string option" where
  "get_str d k = (case map_of d k of Some (PStr s) \<Rightarrow> Some s | _ \<Rightarrow> None)"

definition get_list :: "pydict \<Rightarrow> string \<Rightarrow> string list option" where
  "get_list d k = (case map_of d k of Some (PStrList xs) \<Rightarrow> Some xs | _ \<Rightarrow> None)"

section \<open>Python's substring test\<close>

fun starts_with :: "string \<Rightarrow> string \<Rightarrow> bool" where
  "starts_with [] hay = True"
| "starts_with (p # ps) [] = False"
| "starts_with (p # ps) (c # cs) = (p = c \<and> starts_with ps cs)"

text \<open>\<open>py_in needle hay\<close> is Python's \<open>needle in hay\<close> on strings.\<close>

fun py_in :: "string \<Rightarrow> string \<Rightarrow> bool" where
  "py_in needle [] = (needle = [])"
| "py_in needle (c # cs) = (starts_with needle (c # cs) \<or> py_in needle cs)"

section \<open>\<open>SystemMonitor.get_recommendations\<close>\<close>

text \<open>
  The body of the \<open>for issue in issues\<close> loop: four independent \<open>if\<close> statements, each
  appending to the list of recommendations.
\<close>

definition recommend_issue :: "string list \<Rightarrow> string \<Rightarrow> string list" where
  "recommend_issue recommendations issue =
     (let r1 = (if py_in ''CPU'' issue
                then recommendations @ [''Consider closing unnecessary applications or upgrading CPU'']
                else recommendations);
          r2 = (if py_in ''memory'' issue
                then r1 @ [''Close unused applications or consider adding more RAM'']
                else r1);
          r3 = (if py_in ''disk'' issue
                then r2 @ [''Free up disk space by deleting unnecessary files'']
                else r2);
          r4 = (if py_in ''temperature'' issue
                then r3 @ [''Check cooling system and clean dust from fans'']
                else r3)
      in r4)"

definition get_recommendations :: "string list \<Rightarrow> string list" where
  "get_recommendations issues = foldl recommend_issue [] issues"

section \<open>\<open>SystemMonitor.get_system_health_score\<close>\<close>

text \<open>
  The scorer threads the pair \<open>(score, issues)\<close> through four penalty rules, in the
  order of the source. The temperature rule tests the truthiness of the optional float
  first: \<open>None\<close> and \<open>0.0\<close> are both false.
\<close>

type_synonym tally = "int \<times> string list"

definition cpu_rule :: "PerformanceMetrics \<Rightarrow> tally \<Rightarrow> tally" where
  "cpu_rule metrics t =
     (if cpu_percent metrics > 80 then (fst t - 20, snd t @ [''High CPU usage''])
      else if cpu_percent metrics > 60 then (fst t - 10, snd t @ [''Moderate CPU usage''])
      else t)"

definition memory_rule :: "PerformanceMetrics \<Rightarrow> tally \<Rightarrow> tally" where
  "memory_rule metrics t =
     (if memory_percent metrics > 90 then (fst t - 25, snd t @ [''Critical memory usage''])
      else if memory_percent metrics > 80 then (fst t - 15, snd t @ [''High memory usage''])
      else t)"

definition disk_rule :: "PerformanceMetrics \<Rightarrow> tally \<Rightarrow> tally" where
  "disk_rule metrics t =
     (if disk_percent metrics > 95 then (fst t - 30, snd t @ [''Critical disk usage''])
      else if disk_percent metrics > 85 then (fst t - 15, snd t @ [''High disk usage''])
      else t)"

definition temperature_rule :: "PerformanceMetrics \<Rightarrow> tally \<Rightarrow> tally" where
  "temperature_rule metrics t =
     (if (case temperature metrics of None \<Rightarrow> False | Some x \<Rightarrow> x \<noteq> 0 \<and> x > 80)
      then (fst t - 20, snd t @ [''High CPU temperature''])
      else t)"

definition penalties :: "PerformanceMetrics \<Rightarrow> tally" where
  "penalties metrics =
     temperature_rule metrics (disk_rule metrics (memory_rule metrics
       (cpu_rule metrics (100, []))))"

definition raw_score :: "PerformanceMetrics \<Rightarrow> int" where
  "raw_score metrics = fst (penalties metrics)"

definition issues_of :: "PerformanceMetrics \<Rightarrow> string list" where
  "issues_of metrics = snd (penalties metrics)"

definition status_of :: "int \<Rightarrow> string" where
  "status_of score =
     (if score \<ge> 80 then ''Excellent''
      else if score \<ge> 60 then ''Good''
      else if score \<ge> 40 then ''Fair''
      else if score \<ge> 20 then ''Poor''
      else ''Critical'')"

text \<open>
  The argument is what \<open>self.get_performance_metrics()\<close> returned: \<open>None\<close> when the
  provider failed. A dataclass instance is always truthy.
\<close>

definition get_system_health_score :: "PerformanceMetrics option \<Rightarrow> pydict" where
  "get_system_health_score r =
     (case r of
        None \<Rightarrow>
          [(''score'', PInt 0), (''status'', PStr ''Unknown''),
           (''issues'', PStrList [''Unable to get metrics''])]
      | Some metrics \<Rightarrow>
          [(''score'', PInt (max 0 (raw_score metrics))),
           (''status'', PStr (status_of (raw_score metrics))),
           (''issues'', PStrList (issues_of metrics)),
           (''recommendations'', PStrList (get_recommendations (issues_of metrics)))])"

text \<open>
  The band table as the specification words it, for comparison with \<open>status_of\<close>.
\<close>

definition band_table :: "int \<Rightarrow> string" where
  "band_table score =
     (if score \<ge> 80 then ''Excellent''
      else if 60 \<le> score \<and> score < 80 then ''Good''
      else if 40 \<le> score \<and> score < 60 then ''Fair''
      else if 20 \<le> score \<and> score < 40 then ''Poor''
      else ''Critical'')"

section \<open>\<open>SystemMonitor.monitor_system\<close>\<close>

text \<open>
  The sampling loop reads the clock, calls the provider and sleeps. What it cannot
  control is the environment: the result of the \<open>k\<close>-th call of
  \<open>get_performance_metrics\<close> (\<open>None\<close> when it failed), the time that call takes,
  whether the user's interrupt arrives while tick \<open>k\<close> is reading or sleeping, and
  whether the operating system refuses the sleep of tick \<open>k\<close> for a given number of
  seconds.
\<close>

datatype phase = Reading | Sleeping

record env =
  provider :: "nat \<Rightarrow> PerformanceMetrics option"
  read_time :: "nat \<Rightarrow> real"
  signal :: "nat \<Rightarrow> phase \<Rightarrow> bool"
  os_refuses :: "nat \<Rightarrow> int \<Rightarrow> bool"

text \<open>
  \<open>time.sleep\<close> called with a Python int at tick \<open>k\<close>: the error it raises, or \<open>None\<close>
  when it sleeps. The interpreter first converts the seconds to nanoseconds in a signed
  64-bit integer, which overflows beyond 9223372036 seconds in either direction; then
  it rejects a negative length; then the operating system may refuse a sleep whose
  deadline is beyond what the kernel accepts.
\<close>

definition time_sleep :: "env \<Rightarrow> nat \<Rightarrow> int \<Rightarrow> py_error option" where
  "time_sleep e k secs =
     (if secs < - 9223372036 \<or> 9223372036 < secs then Some OverflowError
      else if secs < 0 then Some ValueError
      else if os_refuses e k secs then Some OSError
      else None)"

text \<open>
  One entry of \<open>data_points\<close>. The timestamp is the clock value at the append; the
  source formats it with \<open>isoformat\<close>.
\<close>

record data_point =
  dp_timestamp :: real
  dp_cpu_percent :: real
  dp_memory_percent :: real
  dp_disk_percent :: real
  dp_temperature :: "real option"

definition new_point :: "real \<Rightarrow> PerformanceMetrics \<Rightarrow> data_point" where
  "new_point t metrics =
     \<lparr>dp_timestamp = t, dp_cpu_percent = cpu_percent metrics,
      dp_memory_percent = memory_percent metrics, dp_disk_percent = disk_percent metrics,
      dp_temperature = temperature metrics\<rparr>"

text \<open>
  The state of a run: the flag \<open>self.monitoring\<close>, the list \<open>data_points\<close>, the
  clock, and the number of provider calls made so far.
\<close>

record monitor_state =
  monitoring :: bool
  data_points :: "data_point list"
  now :: real
  reads :: nat

datatype loop_exit = Completed | KeyboardInterrupt | Exception py_error

definition after_read :: "env \<Rightarrow> monitor_state \<Rightarrow> monitor_state" where
  "after_read e s =
     (let t = now s + read_time e (reads s)
      in case provider e (reads s) of
           None \<Rightarrow> s\<lparr>now := t, reads := Suc (reads s)\<rparr>
         | Some metrics \<Rightarrow>
             s\<lparr>data_points := data_points s @ [new_point t metrics],
               now := t, reads := Suc (reads s)\<rparr>)"

text \<open>
  The \<open>while\<close> loop, with fuel: \<open>None\<close> means the fuel ran out before the loop left.
  The duration and the interval are Python ints, as the signature and the caller have
  them. \<open>time.sleep\<close> raises its errors before it sleeps, and nothing in the method
  catches them.
\<close>

fun sampling_loop ::
  "nat \<Rightarrow> env \<Rightarrow> real \<Rightarrow> int \<Rightarrow> int \<Rightarrow> monitor_state \<Rightarrow> (loop_exit \<times> monitor_state) option"
where
  "sampling_loop 0 e start_time duration interval s = None"
| "sampling_loop (Suc fuel) e start_time duration interval s =
     (if monitoring s \<and> now s - start_time < real_of_int duration then
        if signal e (reads s) Reading then Some (KeyboardInterrupt, s)
        else
          let s1 = after_read e s in
          case time_sleep e (reads s) interval of
            Some err \<Rightarrow> Some (Exception err, s1)
          | None \<Rightarrow>
              if signal e (reads s) Sleeping then Some (KeyboardInterrupt, s1)
              else sampling_loop fuel e start_time duration interval
                     (s1\<lparr>now := now s1 + real_of_int interval\<rparr>)
      else Some (Completed, s))"

text \<open>The state in which \<open>monitor_system\<close> enters its loop.\<close>

definition initial_state :: "real \<Rightarrow> monitor_state" where
  "initial_state t0 = \<lparr>monitoring = True, data_points = [], now = t0, reads = 0\<rparr>"

text \<open>
  The whole method, started when the clock shows \<open>t0\<close>. A normal exit of the loop and the
  caught interrupt both clear the flag and return the list; an exception leaves the
  method with the flag still set.
\<close>

definition monitor_system ::
  "nat \<Rightarrow> env \<Rightarrow> real \<Rightarrow> int \<Rightarrow> int \<Rightarrow> ((py_error + data_point list) \<times> monitor_state) option"
where
  "monitor_system fuel e t0 duration interval =
     (let s0 = initial_state t0
      in case sampling_loop fuel e t0 duration interval s0 of
           None \<Rightarrow> None
         | Some (Exception err, s) \<Rightarrow> Some (Inl err, s)
         | Some (_, s) \<Rightarrow> Some (Inr (data_points s), s\<lparr>monitoring := False\<rparr>))"

text \<open>
  The environment of the tick-count scenarios: the provider always succeeds with the same
  reading, a call takes no time, no interrupt arrives and the operating system refuses
  no sleep, so the clock advances by the interval only.
\<close>

definition steady_env :: "PerformanceMetrics \<Rightarrow> env" where
  "steady_env metrics =
     \<lparr>provider = (\<lambda>k. Some metrics), read_time = (\<lambda>k. 0), signal = (\<lambda>k p. False),
      os_refuses = (\<lambda>k secs. False)\<rparr>"

text \<open>
  An environment like \<open>steady_env\<close>, except that the provider fails at the ticks listed
  in \<open>bad\<close>.
\<close>

definition flaky_env :: "PerformanceMetrics \<Rightarrow> nat list \<Rightarrow> env" where
  "flaky_env metrics bad =
     (steady_env metrics)\<lparr>provider := (\<lambda>k. if k \<in> set bad then None else Some metrics)\<rparr>"

section \<open>Named inputs and issue labels\<close>

text \<open>
  A reading given by the four fields the scorer looks at; the fields it ignores are empty.
\<close>

definition snapshot :: "real \<Rightarrow> real \<Rightarrow> real \<Rightarrow> real option \<Rightarrow> PerformanceMetrics" where
  "snapshot cpu mem disk temp =
     \<lparr>cpu_percent = cpu, memory_percent = mem, disk_percent = disk, network_io = [],
      load_average = (0, 0, 0), temperature = temp, fan_speed = None\<rparr>"

text \<open>The labels that the CPU, memory and disk rules of the scorer can append.\<close>

definition cpu_labels :: "string list" where
  "cpu_labels = [''High CPU usage'', ''Moderate CPU usage'']"

definition memory_labels :: "string list" where
  "memory_labels = [''Critical memory usage'', ''High memory usage'']"

definition disk_labels :: "string list" where
  "disk_labels = [''Critical disk usage'', ''High disk usage'']"

section \<open>Facts about the scorer\<close>

lemma band_table_status_of: "band_table s = status_of s"
  by (simp add: band_table_def status_of_def)

lemmas rule_defs = cpu_rule_def memory_rule_def disk_rule_def temperature_rule_def

text \<open>
  Each rule only subtracts from the score and appends to the issues, so the result of
  the four rules is the sum and the concatenation of what each contributes.
\<close>

lemma issues_of_parts:
  "issues_of m = snd (cpu_rule m (0, [])) @ snd (memory_rule m (0, []))
       @ snd (disk_rule m (0, [])) @ snd (temperature_rule m (0, []))"
  by (simp add: issues_of_def penalties_def rule_defs)

lemma raw_score_parts:
  "raw_score m = 100 + fst (cpu_rule m (0, [])) + fst (memory_rule m (0, []))
       + fst (disk_rule m (0, [])) + fst (temperature_rule m (0, []))"
  by (simp add: raw_score_def penalties_def rule_defs)

lemma raw_score_bounds: "5 \<le> raw_score m \<and> raw_score m \<le> 100"
  by (simp add: raw_score_parts rule_defs)

text \<open>Reading the fields of a scored assessment.\<close>

lemma get_score_scored:
  "get_int (get_system_health_score (Some m)) ''score'' = Some (raw_score m)"
  using raw_score_bounds [of m] by (simp add: get_system_health_score_def get_int_def)

lemma get_status_scored:
  "get_str (get_system_health_score (Some m)) ''status'' = Some (status_of (raw_score m))"
  by (simp add: get_system_health_score_def get_str_def)

lemma get_issues_scored:
  "get_list (get_system_health_score (Some m)) ''issues'' = Some (issues_of m)"
  by (simp add: get_system_health_score_def get_list_def)

section \<open>Recommendations\<close>

lemma recommend_issue_append:
  "recommend_issue acc issue = acc @ recommend_issue [] issue"
  by (simp add: recommend_issue_def)

lemma foldl_recommend_issue:
  "foldl recommend_issue acc issues = acc @ concat (map (recommend_issue []) issues)"
proof (induction issues arbitrary: acc)
  case Nil
  show ?case by simp
next
  case (Cons i issues)
  have "foldl recommend_issue acc (i # issues)
        = foldl recommend_issue (recommend_issue acc i) issues"
    by simp
  also have "\<dots> = recommend_issue acc i @ concat (map (recommend_issue []) issues)"
    by (rule Cons.IH)
  also have "\<dots> = acc @ recommend_issue [] i @ concat (map (recommend_issue []) issues)"
    by (subst recommend_issue_append) simp
  finally show ?case by simp
qed

lemma get_recommendations_concat:
  "get_recommendations issues = concat (map (recommend_issue []) issues)"
  by (simp add: get_recommendations_def foldl_recommend_issue)

lemma rec_high_cpu:
  "recommend_issue [] ''High CPU usage''
     = [''Consider closing unnecessary applications or upgrading CPU'']"
  by (simp add: recommend_issue_def)

lemma rec_moderate_cpu:
  "recommend_issue [] ''Moderate CPU usage''
     = [''Consider closing unnecessary applications or upgrading CPU'']"
  by (simp add: recommend_issue_def)

lemma rec_critical_memory:
  "recommend_issue [] ''Critical memory usage''
     = [''Close unused applications or consider adding more RAM'']"
  by (simp add: recommend_issue_def)

lemma rec_high_memory:
  "recommend_issue [] ''High memory usage''
     = [''Close unused applications or consider adding more RAM'']"
  by (simp add: recommend_issue_def)

lemma rec_critical_disk:
  "recommend_issue [] ''Critical disk usage''
     = [''Free up disk space by deleting unnecessary files'']"
  by (simp add: recommend_issue_def)

lemma rec_high_disk:
  "recommend_issue [] ''High disk usage''
     = [''Free up disk space by deleting unnecessary files'']"
  by (simp add: recommend_issue_def)

lemma rec_temperature:
  "recommend_issue [] ''High CPU temperature''
     = [''Consider closing unnecessary applications or upgrading CPU'',
        ''Check cooling system and clean dust from fans'']"
  by (simp add: recommend_issue_def)

lemmas rec_label = rec_high_cpu rec_moderate_cpu rec_critical_memory rec_high_memory
  rec_critical_disk rec_high_disk rec_temperature

lemma temperature_issue_iff:
  "(''High CPU temperature'' \<in> set (issues_of m))
     = (snd (temperature_rule m (0, [])) = [''High CPU temperature''])"
  by (simp add: issues_of_parts rule_defs)

lemma length_recs_cpu:
  "length (concat (map (recommend_issue []) (snd (cpu_rule m (0, [])))))
     = length (snd (cpu_rule m (0, [])))"
  by (simp add: cpu_rule_def rec_label)

lemma length_recs_memory:
  "length (concat (map (recommend_issue []) (snd (memory_rule m (0, [])))))
     = length (snd (memory_rule m (0, [])))"
  by (simp add: memory_rule_def rec_label)

lemma length_recs_disk:
  "length (concat (map (recommend_issue []) (snd (disk_rule m (0, [])))))
     = length (snd (disk_rule m (0, [])))"
  by (simp add: disk_rule_def rec_label)

lemma length_recs_temperature:
  "length (concat (map (recommend_issue []) (snd (temperature_rule m (0, [])))))
     = 2 * length (snd (temperature_rule m (0, [])))"
  by (simp add: temperature_rule_def rec_label)

text \<open>
  Claim C1, as the code has it. The recommendations are the concatenation, in order, of
  what each issue of the scorer contributes. Each CPU, memory and disk usage issue
  contributes exactly one recommendation, that of its category. The label
  \<open>High CPU temperature\<close> mentions both \<open>CPU\<close> and \<open>temperature\<close> and contributes two:
  the CPU recommendation and the cooling recommendation. So the list of recommendations
  is as long as the list of issues, plus one when the temperature issue is present.
\<close>

theorem recommendations_per_issue:
  "get_recommendations (issues_of m) = concat (map (recommend_issue []) (issues_of m))
   \<and> length (get_recommendations (issues_of m)) =
       length (issues_of m) + (if ''High CPU temperature'' \<in> set (issues_of m) then 1 else 0)
   \<and> recommend_issue [] ''High CPU usage'' =
       [''Consider closing unnecessary applications or upgrading CPU'']
   \<and> recommend_issue [] ''Moderate CPU usage'' =
       [''Consider closing unnecessary applications or upgrading CPU'']
   \<and> recommend_issue [] ''Critical memory usage'' =
       [''Close unused applications or consider adding more RAM'']
   \<and> recommend_issue [] ''High memory usage'' =
       [''Close unused applications or consider adding more RAM'']
   \<and> recommend_issue [] ''Critical disk usage'' =
       [''Free up disk space by deleting unnecessary files'']
   \<and> recommend_issue [] ''High disk usage'' =
       [''Free up disk space by deleting unnecessary files'']
   \<and> recommend_issue [] ''High CPU temperature'' =
       [''Consider closing unnecessary applications or upgrading CPU'',
        ''Check cooling system and clean dust from fans'']"
proof -
  have len: "length (get_recommendations (issues_of m)) =
       length (issues_of m) + (if ''High CPU temperature'' \<in> set (issues_of m) then 1 else 0)"
    unfolding temperature_issue_iff get_recommendations_concat
    apply (subst issues_of_parts)
    apply (subst issues_of_parts)
    apply (simp only: map_append concat_append length_append length_recs_cpu
        length_recs_memory length_recs_disk length_recs_temperature)
    apply (simp add: temperature_rule_def)
    done
  show ?thesis
    using len by (simp only: get_recommendations_concat rec_label simp_thms)
qed

text \<open>
  The theorem at a reading with a CPU, a memory and a temperature issue: three issues,
  four recommendations.
\<close>

theorem recommendations_per_issue_witness:
  "issues_of (snapshot 85 95 50 (Some 90))
     = [''High CPU usage'', ''Critical memory usage'', ''High CPU temperature'']
   \<and> length (get_recommendations (issues_of (snapshot 85 95 50 (Some 90)))) = 4"
proof -
  have i: "issues_of (snapshot 85 95 50 (Some 90))
     = [''High CPU usage'', ''Critical memory usage'', ''High CPU temperature'']"
    by (simp add: issues_of_parts rule_defs snapshot_def)
  show ?thesis
    using recommendations_per_issue [of "snapshot 85 95 50 (Some 90)"]
    unfolding i by simp
qed

text \<open>
  Claim C1 as stated fails: a reading whose only issue is the temperature gets two
  recommendations for its one issue.
\<close>

theorem recommendations_count_counterexample:
  "get_system_health_score (Some (snapshot 0 0 0 (Some 85))) =
     [(''score'', PInt 80), (''status'', PStr ''Excellent''),
      (''issues'', PStrList [''High CPU temperature'']),
      (''recommendations'', PStrList
         [''Consider closing unnecessary applications or upgrading CPU'',
          ''Check cooling system and clean dust from fans''])]
   \<and> length (get_recommendations (issues_of (snapshot 0 0 0 (Some 85))))
       \<noteq> length (issues_of (snapshot 0 0 0 (Some 85)))"
proof -
  have i: "issues_of (snapshot 0 0 0 (Some 85)) = [''High CPU temperature'']"
    by (simp add: issues_of_parts rule_defs snapshot_def)
  have r: "raw_score (snapshot 0 0 0 (Some 85)) = 80"
    by (simp add: raw_score_parts rule_defs snapshot_def)
  show ?thesis
    by (simp add: get_system_health_score_def i r get_recommendations_concat
        rec_temperature status_of_def)
qed

section \<open>The sentinel assessment\<close>

text \<open>
  Claim C2. When the provider returns no metrics the scorer returns score 0, status
  \<open>Unknown\<close> and the single issue \<open>Unable to get metrics\<close>. This dict has three keys: the
  key \<open>recommendations\<close>, which every scored assessment has, is missing, and subscripting
  the sentinel with it (as the interactive health check does) raises \<open>KeyError\<close>.
\<close>

theorem sentinel_lacks_recommendations:
  "get_system_health_score None =
     [(''score'', PInt 0), (''status'', PStr ''Unknown''),
      (''issues'', PStrList [''Unable to get metrics''])]
   \<and> keys (get_system_health_score None) = [''score'', ''status'', ''issues'']
   \<and> subscript (get_system_health_score None) ''recommendations'' = Inl KeyError
   \<and> keys (get_system_health_score (Some m)) =
       [''score'', ''status'', ''issues'', ''recommendations'']"
  by (simp add: get_system_health_score_def keys_def subscript_def)

section \<open>Scenario: high CPU only\<close>

text \<open>
  Claim C3, as the code has it. For the reading with \<open>cpu_percent = 85\<close>,
  \<open>memory_percent = 50\<close>, \<open>disk_percent = 50\<close> and no temperature, the scorer returns
  score 80, status \<open>Excellent\<close> (80 is in the top band), the issue \<open>High CPU usage\<close> and
  the CPU recommendation.
\<close>

theorem scenario_cpu_85:
  "get_system_health_score
     (Some \<lparr>cpu_percent = 85, memory_percent = 50, disk_percent = 50, network_io = nio,
            load_average = la, temperature = None, fan_speed = fs\<rparr>) =
     [(''score'', PInt 80), (''status'', PStr ''Excellent''),
      (''issues'', PStrList [''High CPU usage'']),
      (''recommendations'', PStrList
         [''Consider closing unnecessary applications or upgrading CPU''])]"
  by (simp add: get_system_health_score_def raw_score_parts issues_of_parts rule_defs
      get_recommendations_concat rec_high_cpu status_of_def)

text \<open>Claim C3 as stated fails: the status of that reading is not \<open>Good\<close>.\<close>

theorem scenario_cpu_85_counterexample:
  "get_system_health_score (Some (snapshot 85 50 50 None)) \<noteq>
     [(''score'', PInt 80), (''status'', PStr ''Good''),
      (''issues'', PStrList [''High CPU usage'']),
      (''recommendations'', PStrList
         [''Consider closing unnecessary applications or upgrading CPU''])]
   \<and> get_str (get_system_health_score (Some (snapshot 85 50 50 None))) ''status''
       = Some ''Excellent''"
  by (simp add: get_system_health_score_def raw_score_parts rule_defs snapshot_def
      status_of_def get_str_def)

section \<open>Score range and status bands\<close>

text \<open>
  Claim C4. For every reading, the returned score is an integer between 0 and 100 and
  the returned status is what the band table gives for that score; the table changes
  value exactly at 80, 60, 40 and 20.
\<close>

theorem score_range_and_status_band:
  "(\<exists>s. get_int (get_system_health_score (Some m)) ''score'' = Some s
        \<and> 0 \<le> s \<and> s \<le> 100
        \<and> get_str (get_system_health_score (Some m)) ''status'' = Some (band_table s))
   \<and> band_table 100 = ''Excellent'' \<and> band_table 80 = ''Excellent''
   \<and> band_table 79 = ''Good'' \<and> band_table 60 = ''Good''
   \<and> band_table 59 = ''Fair'' \<and> band_table 40 = ''Fair''
   \<and> band_table 39 = ''Poor'' \<and> band_table 20 = ''Poor''
   \<and> band_table 19 = ''Critical'' \<and> band_table 0 = ''Critical''"
proof -
  have "get_int (get_system_health_score (Some m)) ''score'' = Some (raw_score m)
        \<and> 0 \<le> raw_score m \<and> raw_score m \<le> 100
        \<and> get_str (get_system_health_score (Some m)) ''status'' = Some (band_table (raw_score m))"
    using raw_score_bounds [of m]
    by (simp add: get_score_scored get_status_scored band_table_status_of)
  then have ex: "\<exists>s. get_int (get_system_health_score (Some m)) ''score'' = Some s
        \<and> 0 \<le> s \<and> s \<le> 100
        \<and> get_str (get_system_health_score (Some m)) ''status'' = Some (band_table s)"
    by blast
  show ?thesis
    using ex by (simp add: band_table_def)
qed

text \<open>
  Claim C10. The penalties of a scored reading sum to at most 95, so the score before
  the clamp is at least 5, \<open>max 0\<close> leaves it unchanged, and the returned score is 0 only
  for the sentinel. The bound is reached when every rule fires at its highest penalty.
\<close>

theorem clamp_never_applies:
  "100 - raw_score m \<le> 95 \<and> 5 \<le> raw_score m
   \<and> max 0 (raw_score m) = raw_score m
   \<and> get_int (get_system_health_score (Some m)) ''score'' = Some (raw_score m)
   \<and> (get_int (get_system_health_score r) ''score'' = Some 0) = (r = None)
   \<and> raw_score (snapshot 100 100 100 (Some 100)) = 5"
proof -
  have b: "5 \<le> raw_score m" using raw_score_bounds by simp
  have z: "(get_int (get_system_health_score r) ''score'' = Some 0) = (r = None)"
  proof (cases r)
    case None
    then show ?thesis by (simp add: get_system_health_score_def get_int_def)
  next
    case (Some x)
    then show ?thesis using raw_score_bounds [of x] by (simp add: get_score_scored)
  qed
  have w: "raw_score (snapshot 100 100 100 (Some 100)) = 5"
    by (simp add: raw_score_parts rule_defs snapshot_def)
  show ?thesis using b z w by (simp add: get_score_scored)
qed

text \<open>The theorem at the sentinel and at the worst reading.\<close>

theorem clamp_never_applies_witness:
  "get_int (get_system_health_score None) ''score'' = Some 0
   \<and> get_int (get_system_health_score (Some (snapshot 100 100 100 (Some 100)))) ''score''
       = Some 5"
proof -
  have "(get_int (get_system_health_score None) ''score'' = Some 0)
          = (None = (None :: PerformanceMetrics option))"
    using clamp_never_applies [of "snapshot 100 100 100 (Some 100)" None] by blast
  moreover have "get_int (get_system_health_score (Some (snapshot 100 100 100 (Some 100))))
       ''score'' = Some 5"
    using clamp_never_applies [of "snapshot 100 100 100 (Some 100)" None] by simp
  ultimately show ?thesis by simp
qed

section \<open>Mutually exclusive bands\<close>

text \<open>
  Claim C6. For every reading the issues contain at most one of the two CPU usage
  labels, at most one of the two memory labels and at most one of the two disk labels;
  never both \<open>High CPU usage\<close> and \<open>Moderate CPU usage\<close>. The temperature issue is
  independent: a hot sensor appends it to whatever the other rules produced, and it
  occurs together with each of the six other labels.
\<close>

theorem issue_bands_exclusive:
  "length (filter (\<lambda>i. i \<in> set cpu_labels) (issues_of m)) \<le> 1
   \<and> length (filter (\<lambda>i. i \<in> set memory_labels) (issues_of m)) \<le> 1
   \<and> length (filter (\<lambda>i. i \<in> set disk_labels) (issues_of m)) \<le> 1
   \<and> \<not> (''High CPU usage'' \<in> set (issues_of m) \<and> ''Moderate CPU usage'' \<in> set (issues_of m))
   \<and> issues_of (m\<lparr>temperature := Some 90\<rparr>)
        = issues_of (m\<lparr>temperature := None\<rparr>) @ [''High CPU temperature'']
   \<and> issues_of (snapshot 85 95 97 (Some 90))
        = [''High CPU usage'', ''Critical memory usage'', ''Critical disk usage'',
           ''High CPU temperature'']
   \<and> issues_of (snapshot 70 85 90 (Some 90))
        = [''Moderate CPU usage'', ''High memory usage'', ''High disk usage'',
           ''High CPU temperature'']"
proof -
  have c: "length (filter (\<lambda>i. i \<in> set cpu_labels) (issues_of m)) \<le> 1"
    by (simp add: issues_of_parts rule_defs cpu_labels_def)
  have me: "length (filter (\<lambda>i. i \<in> set memory_labels) (issues_of m)) \<le> 1"
    by (simp add: issues_of_parts rule_defs memory_labels_def)
  have d: "length (filter (\<lambda>i. i \<in> set disk_labels) (issues_of m)) \<le> 1"
    by (simp add: issues_of_parts rule_defs disk_labels_def)
  have x: "\<not> (''High CPU usage'' \<in> set (issues_of m) \<and> ''Moderate CPU usage'' \<in> set (issues_of m))"
    by (simp add: issues_of_parts rule_defs)
  have t: "issues_of (m\<lparr>temperature := Some 90\<rparr>)
        = issues_of (m\<lparr>temperature := None\<rparr>) @ [''High CPU temperature'']"
    by (simp add: issues_of_parts rule_defs)
  have a: "issues_of (snapshot 85 95 97 (Some 90))
        = [''High CPU usage'', ''Critical memory usage'', ''Critical disk usage'',
           ''High CPU temperature'']"
    by (simp add: issues_of_parts rule_defs snapshot_def)
  have b: "issues_of (snapshot 70 85 90 (Some 90))
        = [''Moderate CPU usage'', ''High memory usage'', ''High disk usage'',
           ''High CPU temperature'']"
    by (simp add: issues_of_parts rule_defs snapshot_def)
  show ?thesis using c me d x t a b by (simp only: simp_thms)
qed

section \<open>Monotonicity\<close>

lemma cpu_rule_mono: "cpu_percent a \<le> cpu_percent b
   \<Longrightarrow> fst (cpu_rule b (0, [])) \<le> fst (cpu_rule a (0, []))"
  by (simp add: cpu_rule_def)
lemma memory_rule_mono: "memory_percent a \<le> memory_percent b
   \<Longrightarrow> fst (memory_rule b (0, [])) \<le> fst (memory_rule a (0, []))"
  by (simp add: memory_rule_def)
lemma disk_rule_mono: "disk_percent a \<le> disk_percent b
   \<Longrightarrow> fst (disk_rule b (0, [])) \<le> fst (disk_rule a (0, []))"
  by (simp add: disk_rule_def)
lemma temperature_rule_mono: "temperature a = Some ta \<Longrightarrow> temperature b = Some tb \<Longrightarrow> ta \<le> tb
   \<Longrightarrow> fst (temperature_rule b (0, [])) \<le> fst (temperature_rule a (0, []))"
  by (simp add: temperature_rule_def)

lemma temperature_rule_cong:
  "temperature a = temperature b \<Longrightarrow> temperature_rule b t = temperature_rule a t"
  by (simp add: temperature_rule_def)

lemma raw_score_mono:
  assumes "cpu_percent a \<le> cpu_percent b" and "memory_percent a \<le> memory_percent b"
    and "disk_percent a \<le> disk_percent b"
    and "fst (temperature_rule b (0, [])) \<le> fst (temperature_rule a (0, []))"
  shows "raw_score b \<le> raw_score a"
proof -
  note c = cpu_rule_mono [OF assms(1)]
  note m = memory_rule_mono [OF assms(2)]
  note d = disk_rule_mono [OF assms(3)]
  show ?thesis
    unfolding raw_score_parts using c m d assms(4) by linarith
qed

text \<open>
  Claim C5. If reading \<open>b\<close> equals reading \<open>a\<close> except for one strictly higher value of
  \<open>cpu_percent\<close>, \<open>memory_percent\<close>, \<open>disk_percent\<close> or \<open>temperature\<close>, then the score
  returned for \<open>b\<close> is at most the score returned for \<open>a\<close>.
\<close>

theorem score_monotone:
  assumes "(cpu_percent a < cpu_percent b \<and> b = a\<lparr>cpu_percent := cpu_percent b\<rparr>)
         \<or> (memory_percent a < memory_percent b \<and> b = a\<lparr>memory_percent := memory_percent b\<rparr>)
         \<or> (disk_percent a < disk_percent b \<and> b = a\<lparr>disk_percent := disk_percent b\<rparr>)
         \<or> (\<exists>ta tb. temperature a = Some ta \<and> temperature b = Some tb \<and> ta < tb
               \<and> b = a\<lparr>temperature := Some tb\<rparr>)"
  shows "\<exists>sa sb. get_int (get_system_health_score (Some a)) ''score'' = Some sa
            \<and> get_int (get_system_health_score (Some b)) ''score'' = Some sb
            \<and> sb \<le> sa"
proof -
  have "raw_score b \<le> raw_score a"
    using assms
  proof (elim disjE conjE exE)
    assume lt: "cpu_percent a < cpu_percent b" and eq: "b = a\<lparr>cpu_percent := cpu_percent b\<rparr>"
    have "memory_percent b = memory_percent a" "disk_percent b = disk_percent a"
      "temperature a = temperature b"
      by (subst eq, simp)+
    then show ?thesis
      using lt temperature_rule_cong [of a b "(0, [])"] by (intro raw_score_mono) simp_all
  next
    assume lt: "memory_percent a < memory_percent b"
      and eq: "b = a\<lparr>memory_percent := memory_percent b\<rparr>"
    have "cpu_percent b = cpu_percent a" "disk_percent b = disk_percent a"
      "temperature a = temperature b"
      by (subst eq, simp)+
    then show ?thesis
      using lt temperature_rule_cong [of a b "(0, [])"] by (intro raw_score_mono) simp_all
  next
    assume lt: "disk_percent a < disk_percent b"
      and eq: "b = a\<lparr>disk_percent := disk_percent b\<rparr>"
    have "cpu_percent b = cpu_percent a" "memory_percent b = memory_percent a"
      "temperature a = temperature b"
      by (subst eq, simp)+
    then show ?thesis
      using lt temperature_rule_cong [of a b "(0, [])"] by (intro raw_score_mono) simp_all
  next
    fix ta tb
    assume t: "temperature a = Some ta" "temperature b = Some tb" "ta < tb"
      and eq: "b = a\<lparr>temperature := Some tb\<rparr>"
    have "cpu_percent b = cpu_percent a" "memory_percent b = memory_percent a"
      "disk_percent b = disk_percent a"
      by (subst eq, simp)+
    moreover have "fst (temperature_rule b (0, [])) \<le> fst (temperature_rule a (0, []))"
      using t by (simp add: temperature_rule_mono)
    ultimately show ?thesis
      by (intro raw_score_mono) simp_all
  qed
  then show ?thesis by (simp add: get_score_scored)
qed

text \<open>The theorem at CPU 70 against CPU 85: scores 90 and 80.\<close>

theorem score_monotone_witness:
  "get_int (get_system_health_score (Some (snapshot 70 50 50 None))) ''score'' = Some 90
   \<and> get_int (get_system_health_score (Some (snapshot 85 50 50 None))) ''score'' = Some 80
   \<and> (\<exists>sa sb. get_int (get_system_health_score (Some (snapshot 70 50 50 None))) ''score'' = Some sa
            \<and> get_int (get_system_health_score (Some (snapshot 85 50 50 None))) ''score'' = Some sb
            \<and> sb \<le> sa)"
proof -
  have h: "cpu_percent (snapshot 70 50 50 None) < cpu_percent (snapshot 85 50 50 None)
      \<and> snapshot 85 50 50 None
          = (snapshot 70 50 50 None)\<lparr>cpu_percent := cpu_percent (snapshot 85 50 50 None)\<rparr>"
    by (simp add: snapshot_def)
  have a: "raw_score (snapshot 70 50 50 None) = 90"
    by (simp add: raw_score_parts rule_defs snapshot_def)
  have b: "raw_score (snapshot 85 50 50 None) = 80"
    by (simp add: raw_score_parts rule_defs snapshot_def)
  show ?thesis
    using score_monotone [of "snapshot 70 50 50 None" "snapshot 85 50 50 None"] h
    by (simp add: get_score_scored a b)
qed

section \<open>The sampling loop\<close>

lemma after_read_simps:
  "now (after_read e s) = now s + read_time e (reads s)"
  "reads (after_read e s) = Suc (reads s)"
  "monitoring (after_read e s) = monitoring s"
  "length (data_points (after_read e s))
     = length (data_points s) + (if provider e (reads s) = None then 0 else 1)"
  by (simp_all add: after_read_def Let_def split: option.split)

lemma time_sleep_provider:
  "time_sleep (e\<lparr>provider := p\<rparr>) k secs = time_sleep e k secs"
  by (simp add: time_sleep_def)

text \<open>
  \<open>time.sleep\<close> raises \<open>ValueError\<close> for a negative length down to \<open>-9223372036\<close> and
  \<open>OverflowError\<close> below that.
\<close>

lemma time_sleep_negative:
  "secs < 0 \<Longrightarrow>
     time_sleep e k secs = Some (if secs < - 9223372036 then OverflowError else ValueError)"
  by (simp add: time_sleep_def)

text \<open>More fuel never changes the result of a run that has returned.\<close>

lemma sampling_loop_fuel_mono:
  "sampling_loop n e st d i s = Some r \<Longrightarrow> n \<le> n' \<Longrightarrow> sampling_loop n' e st d i s = Some r"
proof (induction n arbitrary: n' s)
  case 0
  then show ?case by simp
next
  case (Suc n)
  from Suc.prems(2) obtain k where k: "n' = Suc k" and le: "n \<le> k"
    by (cases n') auto
  show ?case
    using Suc.prems(1) Suc.IH [OF _ le] unfolding k
    by (auto simp: Let_def split: if_splits option.splits)
qed

text \<open>
  When every tick moves the clock forward by at least a fixed positive amount (the read
  and the sleep together), the loop leaves after finitely many ticks.
\<close>

lemma sampling_loop_terminates_aux:
  assumes dl: "0 < dl" and rt: "\<forall>k. dl \<le> read_time e k + real_of_int i"
  shows "real_of_int d - (now s - st) \<le> real n * dl
           \<Longrightarrow> sampling_loop (Suc n) e st d i s \<noteq> None"
proof (induction n arbitrary: s)
  case 0
  then show ?case by simp
next
  case (Suc n)
  let ?s2 = "(after_read e s)\<lparr>now := now (after_read e s) + real_of_int i\<rparr>"
  have "dl \<le> read_time e (reads s) + real_of_int i" using rt by blast
  then have "real_of_int d - (now ?s2 - st) \<le> real_of_int d - (now s - st) - dl"
    by (simp add: after_read_simps)
  also have "\<dots> \<le> real n * dl"
    using Suc.prems by (simp add: algebra_simps)
  finally have "sampling_loop (Suc n) e st d i ?s2 \<noteq> None"
    by (rule Suc.IH)
  then show ?case
    by (subst sampling_loop.simps) (simp add: Let_def split: option.split)
qed

lemma sampling_loop_terminates:
  assumes dl: "0 < dl" and rt: "\<forall>k. dl \<le> read_time e k + real_of_int i"
  shows "\<exists>n r. sampling_loop n e st d i s = Some r"
proof -
  define n where "n = nat \<lceil>(real_of_int d - (now s - st)) / dl\<rceil>"
  have "(real_of_int d - (now s - st)) / dl \<le> real n"
    unfolding n_def by linarith
  then have "real_of_int d - (now s - st) \<le> real n * dl"
    using dl by (simp add: pos_divide_le_eq)
  then have "sampling_loop (Suc n) e st d i s \<noteq> None"
    by (rule sampling_loop_terminates_aux [OF dl rt])
  then show ?thesis by blast
qed

text \<open>
  The buffer grows by one entry for each successful read among the ticks taken, and by
  nothing else.
\<close>

lemma sampling_loop_buffer:
  "sampling_loop fuel e st d i s = Some (ex, s') \<Longrightarrow>
     reads s \<le> reads s'
     \<and> length (data_points s') = length (data_points s)
          + length (filter (\<lambda>k. provider e k \<noteq> None) [reads s..<reads s'])"
proof (induction fuel arbitrary: s)
  case 0
  then show ?case by simp
next
  case (Suc fuel)
  let ?s1 = "after_read e s"
  let ?s2 = "?s1\<lparr>now := now ?s1 + real_of_int i\<rparr>"
  consider (stay) "s' = s" | (read) "s' = ?s1"
    | (loop) "sampling_loop fuel e st d i ?s2 = Some (ex, s')"
    using Suc.prems by (auto simp: Let_def split: if_splits option.splits)
  then show ?case
  proof cases
    case stay
    then show ?thesis by simp
  next
    case read
    then show ?thesis by (simp add: after_read_simps)
  next
    case loop
    from Suc.IH [OF loop]
    have le: "Suc (reads s) \<le> reads s'"
      and len: "length (data_points s') = length (data_points ?s1)
          + length (filter (\<lambda>k. provider e k \<noteq> None) [Suc (reads s)..<reads s'])"
      by (simp_all add: after_read_simps)
    have "[reads s..<reads s'] = reads s # [Suc (reads s)..<reads s']"
      using le by (simp add: upt_conv_Cons)
    then show ?thesis
      using le len by (simp add: after_read_simps)
  qed
qed

text \<open>
  Every way out of the loop has its cause at the exit: the loop test is false, or an
  interrupt arrived at the last tick, or the sleep of the last tick raised. None of
  them is a failed read.
\<close>

lemma sampling_loop_exit:
  "sampling_loop fuel e st d i s = Some (ex, s') \<Longrightarrow>
     (ex = Completed \<longrightarrow> \<not> (monitoring s' \<and> now s' - st < real_of_int d))
     \<and> (ex = KeyboardInterrupt \<longrightarrow>
          signal e (reads s') Reading \<or> (0 < reads s' \<and> signal e (reads s' - 1) Sleeping))
     \<and> (\<forall>err. ex = Exception err \<longrightarrow>
          0 < reads s' \<and> time_sleep e (reads s' - 1) i = Some err)"
proof (induction fuel arbitrary: s)
  case 0
  then show ?case by simp
next
  case (Suc fuel)
  let ?s1 = "after_read e s"
  let ?s2 = "?s1\<lparr>now := now ?s1 + real_of_int i\<rparr>"
  show ?case
  proof (cases "monitoring s \<and> now s - st < real_of_int d")
    case False
    then have "ex = Completed" "s' = s"
      using Suc.prems by auto
    then show ?thesis using False by simp
  next
    case test: True
    show ?thesis
    proof (cases "signal e (reads s) Reading")
      case True
      then have "ex = KeyboardInterrupt" "s' = s"
        using Suc.prems test by auto
      then show ?thesis using True by simp
    next
      case rd: False
      show ?thesis
      proof (cases "time_sleep e (reads s) i")
        case (Some err)
        then have "ex = Exception err" "s' = ?s1"
          using Suc.prems test rd by (auto simp: Let_def)
        then show ?thesis using Some by (simp add: after_read_simps)
      next
        case sl: None
        show ?thesis
        proof (cases "signal e (reads s) Sleeping")
          case True
          then have "ex = KeyboardInterrupt" "s' = ?s1"
            using Suc.prems test rd sl by (auto simp: Let_def)
          then show ?thesis using True by (simp add: after_read_simps)
        next
          case False
          then have "sampling_loop fuel e st d i ?s2 = Some (ex, s')"
            using Suc.prems test rd sl by (simp add: Let_def)
          then show ?thesis by (rule Suc.IH)
        qed
      qed
    qed
  qed
qed

text \<open>
  The control flow of the loop does not look at what the provider returned: with any
  other provider the run takes the same ticks and leaves the same way.
\<close>

lemma sampling_loop_provider_indep:
  "sampling_loop fuel e st d i s = Some (ex, s') \<Longrightarrow>
     \<exists>s''. sampling_loop fuel (e\<lparr>provider := p\<rparr>) st d i (s\<lparr>data_points := dps\<rparr>) = Some (ex, s'')
        \<and> reads s'' = reads s' \<and> now s'' = now s' \<and> monitoring s'' = monitoring s'"
proof (induction fuel arbitrary: s dps)
  case 0
  then show ?case by simp
next
  case (Suc fuel)
  let ?e = "e\<lparr>provider := p\<rparr>"
  let ?t = "s\<lparr>data_points := dps\<rparr>"
  let ?s2 = "(after_read e s)\<lparr>now := now (after_read e s) + real_of_int i\<rparr>"
  let ?t2 = "(after_read ?e ?t)\<lparr>now := now (after_read ?e ?t) + real_of_int i\<rparr>"
  have t2: "?t2 = ?s2\<lparr>data_points := data_points ?t2\<rparr>"
    by (simp add: after_read_def Let_def split: option.split)
  show ?case
  proof (cases "monitoring s \<and> now s - st < real_of_int d \<and> \<not> signal e (reads s) Reading
                  \<and> time_sleep e (reads s) i = None \<and> \<not> signal e (reads s) Sleeping")
    case True
    then have run: "sampling_loop fuel e st d i ?s2 = Some (ex, s')"
      using Suc.prems by (simp add: Let_def)
    from Suc.IH [OF run, of "data_points ?t2"] obtain s'' where
      "sampling_loop fuel ?e st d i (?s2\<lparr>data_points := data_points ?t2\<rparr>) = Some (ex, s'')"
      "reads s'' = reads s'" "now s'' = now s'" "monitoring s'' = monitoring s'"
      by blast
    then show ?thesis
      using True t2 by (simp add: Let_def time_sleep_provider)
  next
    case False
    then show ?thesis
      using Suc.prems
      by (auto simp: Let_def after_read_simps time_sleep_provider
          split: if_splits option.splits)
  qed
qed

text \<open>
  Claim C8. First, one tick: when the loop test holds, the read fails, no interrupt
  arrives and \<open>time.sleep\<close> accepts the interval, the run from that state is the run
  from the next iteration, entered with the same buffer, one more read counted and the
  clock advanced by the read and the interval. Second, any run that has returned: the
  buffer has gained exactly one entry per tick whose read succeeded; the loop left
  because its test was false at the exit, or an interrupt arrived at the last tick, or
  the sleep of the last tick raised; and with any other provider the run takes the same
  ticks and leaves the same way. Third, the run does return when each tick moves the
  clock forward by at least a fixed positive amount.
\<close>

theorem failed_read_skips_tick:
  "(monitoring s \<and> now s - st < real_of_int duration \<and> provider e (reads s) = None
      \<and> \<not> signal e (reads s) Reading \<and> \<not> signal e (reads s) Sleeping
      \<and> time_sleep e (reads s) interval = None
     \<longrightarrow> sampling_loop (Suc fuel) e st duration interval s
          = sampling_loop fuel e st duration interval
              (s\<lparr>reads := Suc (reads s),
                 now := now s + read_time e (reads s) + real_of_int interval\<rparr>))
   \<and> (sampling_loop fuel e st duration interval s = Some (ex, s')
     \<longrightarrow> length (data_points s') = length (data_points s)
            + length (filter (\<lambda>k. provider e k \<noteq> None) [reads s..<reads s'])
       \<and> (ex = Completed \<longrightarrow> \<not> (monitoring s' \<and> now s' - st < real_of_int duration))
       \<and> (ex = KeyboardInterrupt \<longrightarrow>
            signal e (reads s') Reading \<or> (0 < reads s' \<and> signal e (reads s' - 1) Sleeping))
       \<and> (\<forall>err. ex = Exception err \<longrightarrow>
            0 < reads s' \<and> time_sleep e (reads s' - 1) interval = Some err)
       \<and> (\<forall>p. \<exists>s''. sampling_loop fuel (e\<lparr>provider := p\<rparr>) st duration interval s
                        = Some (ex, s'')
                \<and> reads s'' = reads s' \<and> now s'' = now s'))
   \<and> (0 < dl \<and> (\<forall>k. dl \<le> read_time e k + real_of_int interval)
     \<longrightarrow> (\<exists>n r. sampling_loop n e st duration interval s = Some r))"
proof (intro conjI impI)
  assume a: "monitoring s \<and> now s - st < real_of_int duration \<and> provider e (reads s) = None
      \<and> \<not> signal e (reads s) Reading \<and> \<not> signal e (reads s) Sleeping
      \<and> time_sleep e (reads s) interval = None"
  then show "sampling_loop (Suc fuel) e st duration interval s
          = sampling_loop fuel e st duration interval
              (s\<lparr>reads := Suc (reads s),
                 now := now s + read_time e (reads s) + real_of_int interval\<rparr>)"
    by (simp add: Let_def after_read_def)
next
  assume run: "sampling_loop fuel e st duration interval s = Some (ex, s')"
  show "length (data_points s') = length (data_points s)
            + length (filter (\<lambda>k. provider e k \<noteq> None) [reads s..<reads s'])"
    using sampling_loop_buffer [OF run] by simp
  show "\<not> (monitoring s' \<and> now s' - st < real_of_int duration)" if "ex = Completed"
    using sampling_loop_exit [OF run] that by blast
  show "signal e (reads s') Reading \<or> (0 < reads s' \<and> signal e (reads s' - 1) Sleeping)"
    if "ex = KeyboardInterrupt"
    using sampling_loop_exit [OF run] that by blast
  show "\<forall>err. ex = Exception err \<longrightarrow>
            0 < reads s' \<and> time_sleep e (reads s' - 1) interval = Some err"
    using sampling_loop_exit [OF run] by blast
  show "\<forall>p. \<exists>s''. sampling_loop fuel (e\<lparr>provider := p\<rparr>) st duration interval s
                        = Some (ex, s'')
                \<and> reads s'' = reads s' \<and> now s'' = now s'"
    using sampling_loop_provider_indep [OF run, of _ "data_points s"] by auto
next
  assume h: "0 < dl \<and> (\<forall>k. dl \<le> read_time e k + real_of_int interval)"
  from h have h1: "0 < dl" and h2: "\<forall>k. dl \<le> read_time e k + real_of_int interval"
    by blast+
  show "\<exists>n r. sampling_loop n e st duration interval s = Some r"
    by (rule sampling_loop_terminates [OF h1 h2])
qed

lemma flaky_run:
  "sampling_loop 4 (flaky_env m [Suc 0]) 0 12 5 (initial_state 0) =
     Some (Completed, \<lparr>monitoring = True, data_points = [new_point 0 m, new_point 10 m],
                       now = 15, reads = 3\<rparr>)"
  by (simp add: numeral_nat flaky_env_def steady_env_def initial_state_def after_read_def
      time_sleep_def Let_def)

text \<open>
  The theorem on a run of 12 seconds at interval 5 whose second read fails. The tick
  with the failed read, entered at clock 5 with one data point, passes on to the tick at
  clock 10 with the same buffer; the run returns; and it ends with three reads, of which
  two succeeded, and two data points.
\<close>

theorem failed_read_skips_tick_witness:
  "sampling_loop (Suc 2) (flaky_env (snapshot 10 10 10 None) [Suc 0]) 0 12 5
       \<lparr>monitoring = True, data_points = [new_point 0 (snapshot 10 10 10 None)],
        now = 5, reads = Suc 0\<rparr>
     = sampling_loop 2 (flaky_env (snapshot 10 10 10 None) [Suc 0]) 0 12 5
       \<lparr>monitoring = True, data_points = [new_point 0 (snapshot 10 10 10 None)],
        now = 10, reads = 2\<rparr>
   \<and> length (filter (\<lambda>k. provider (flaky_env (snapshot 10 10 10 None) [Suc 0]) k \<noteq> None)
        [0..<3]) = 2
   \<and> (\<exists>n r. sampling_loop n (flaky_env (snapshot 10 10 10 None) [Suc 0]) 0 12 5
               (initial_state 0) = Some r)
   \<and> monitor_system 4 (flaky_env (snapshot 10 10 10 None) [Suc 0]) 0 12 5 =
       Some (Inr [new_point 0 (snapshot 10 10 10 None), new_point 10 (snapshot 10 10 10 None)],
             \<lparr>monitoring = False,
              data_points = [new_point 0 (snapshot 10 10 10 None),
                             new_point 10 (snapshot 10 10 10 None)],
              now = 15, reads = 3\<rparr>)"
proof -
  let ?m = "snapshot 10 10 10 None"
  let ?e = "flaky_env ?m [Suc 0]"
  let ?s1 = "\<lparr>monitoring = True, data_points = [new_point 0 ?m], now = 5, reads = Suc 0\<rparr>"
  let ?s' = "\<lparr>monitoring = True, data_points = [new_point 0 ?m, new_point 10 ?m],
             now = 15, reads = 3\<rparr>"
  have tick: "monitoring ?s1 \<and> now ?s1 - 0 < real_of_int 12 \<and> provider ?e (reads ?s1) = None
      \<and> \<not> signal ?e (reads ?s1) Reading \<and> \<not> signal ?e (reads ?s1) Sleeping
      \<and> time_sleep ?e (reads ?s1) 5 = None"
    by (simp add: flaky_env_def steady_env_def time_sleep_def)
  have nxt: "?s1\<lparr>reads := Suc (reads ?s1),
                 now := now ?s1 + read_time ?e (reads ?s1) + real_of_int 5\<rparr>
      = \<lparr>monitoring = True, data_points = [new_point 0 ?m], now = 10, reads = 2\<rparr>"
    by (simp add: flaky_env_def steady_env_def)
  have "sampling_loop (Suc 2) ?e 0 12 5 ?s1
     = sampling_loop 2 ?e 0 12 5
         (?s1\<lparr>reads := Suc (reads ?s1),
               now := now ?s1 + read_time ?e (reads ?s1) + real_of_int 5\<rparr>)"
    using failed_read_skips_tick [where s = ?s1 and st = 0 and duration = 12 and e = ?e
        and interval = 5 and fuel = 2, THEN conjunct1] tick
    by blast
  then have step: "sampling_loop (Suc 2) ?e 0 12 5 ?s1
     = sampling_loop 2 ?e 0 12 5
         \<lparr>monitoring = True, data_points = [new_point 0 ?m], now = 10, reads = 2\<rparr>"
    by (simp only: nxt)
  have "length (data_points ?s') = length (data_points (initial_state 0))
      + length (filter (\<lambda>k. provider ?e k \<noteq> None) [reads (initial_state 0)..<reads ?s'])"
    using failed_read_skips_tick [where s = "initial_state 0" and st = 0 and duration = 12
        and e = ?e and interval = 5 and fuel = 4 and ex = Completed and s' = ?s',
        THEN conjunct2, THEN conjunct1] flaky_run [of ?m]
    by blast
  then have count: "length (filter (\<lambda>k. provider ?e k \<noteq> None) [0..<3]) = 2"
    by (simp add: initial_state_def)
  have pace: "(0::real) < 5 \<and> (\<forall>k. 5 \<le> read_time ?e k + real_of_int 5)"
    by (simp add: flaky_env_def steady_env_def)
  have total: "\<exists>n r. sampling_loop n ?e 0 12 5 (initial_state 0) = Some r"
    using failed_read_skips_tick [where s = "initial_state 0" and st = 0 and duration = 12
        and e = ?e and interval = 5 and dl = 5, THEN conjunct2, THEN conjunct2] pace
    by blast
  have run: "monitor_system 4 ?e 0 12 5 =
       Some (Inr [new_point 0 ?m, new_point 10 ?m],
             \<lparr>monitoring = False, data_points = [new_point 0 ?m, new_point 10 ?m],
              now = 15, reads = 3\<rparr>)"
    unfolding monitor_system_def Let_def flaky_run by simp
  from step count total run show ?thesis by (intro conjI)
qed

section \<open>Tick counts\<close>

text \<open>
  Claim C9. In the environment where a read takes no time and always succeeds, so that
  the clock advances by the interval only: a run with duration 0 and interval 5 returns
  the empty list without sampling, and a run with duration 12 and interval 5 returns
  exactly three data points, taken at elapsed times 0, 5 and 10.
\<close>

theorem tick_count_scenarios:
  "(1 \<le> fuel \<longrightarrow>
      monitor_system fuel (steady_env m) t0 0 5 =
        Some (Inr [], \<lparr>monitoring = False, data_points = [], now = t0, reads = 0\<rparr>))
   \<and> (4 \<le> fuel \<longrightarrow>
      monitor_system fuel (steady_env m) t0 12 5 =
        Some (Inr [new_point t0 m, new_point (t0 + 5) m, new_point (t0 + 10) m],
              \<lparr>monitoring = False,
               data_points = [new_point t0 m, new_point (t0 + 5) m, new_point (t0 + 10) m],
               now = t0 + 15, reads = 3\<rparr>))"
proof (intro conjI impI)
  assume f: "1 \<le> fuel"
  have "sampling_loop 1 (steady_env m) t0 0 5 (initial_state t0)
          = Some (Completed, initial_state t0)"
    by (simp add: initial_state_def)
  from sampling_loop_fuel_mono [OF this f]
  show "monitor_system fuel (steady_env m) t0 0 5 =
        Some (Inr [], \<lparr>monitoring = False, data_points = [], now = t0, reads = 0\<rparr>)"
    by (simp add: monitor_system_def initial_state_def)
next
  assume f: "4 \<le> fuel"
  have "sampling_loop 4 (steady_env m) t0 12 5 (initial_state t0)
          = Some (Completed, \<lparr>monitoring = True,
               data_points = [new_point t0 m, new_point (t0 + 5) m, new_point (t0 + 10) m],
               now = t0 + 15, reads = 3\<rparr>)"
    by (simp add: numeral_nat steady_env_def initial_state_def after_read_def Let_def
        time_sleep_def add.commute)
  from sampling_loop_fuel_mono [OF this f]
  show "monitor_system fuel (steady_env m) t0 12 5 =
        Some (Inr [new_point t0 m, new_point (t0 + 5) m, new_point (t0 + 10) m],
              \<lparr>monitoring = False,
               data_points = [new_point t0 m, new_point (t0 + 5) m, new_point (t0 + 10) m],
               now = t0 + 15, reads = 3\<rparr>)"
    by (simp add: monitor_system_def)
qed

text \<open>The theorem with fuel 4 and the clock starting at 0.\<close>

theorem tick_count_scenarios_witness:
  "monitor_system 4 (steady_env (snapshot 10 10 10 None)) 0 0 5 =
        Some (Inr [], \<lparr>monitoring = False, data_points = [], now = 0, reads = 0\<rparr>)
   \<and> (\<exists>s. monitor_system 4 (steady_env (snapshot 10 10 10 None)) 0 12 5 =
        Some (Inr [new_point 0 (snapshot 10 10 10 None), new_point 5 (snapshot 10 10 10 None),
                   new_point 10 (snapshot 10 10 10 None)], s))"
  using tick_count_scenarios [of 4 "snapshot 10 10 10 None" 0] by simp

section \<open>Negative duration and interval\<close>

text \<open>
  Claim C7, as the code has it. The method does not validate its arguments. With a
  negative duration no error is raised: the loop body never runs and the empty list is
  returned. With a negative interval and a positive duration, the first tick is taken
  (the provider is read once) and only then does \<open>time.sleep\<close> raise its own error,
  \<open>ValueError\<close> for an interval down to \<open>-9223372036\<close> and \<open>OverflowError\<close> below that,
  which leaves the method with the flag \<open>monitoring\<close> still set.
\<close>

theorem no_validation_of_duration_and_interval:
  "(duration < 0 \<and> 0 < fuel \<longrightarrow>
      monitor_system fuel e t0 duration interval =
        Some (Inr [], \<lparr>monitoring = False, data_points = [], now = t0, reads = 0\<rparr>))
   \<and> (interval < 0 \<and> 0 < duration \<and> \<not> signal e 0 Reading \<and> 0 < fuel \<longrightarrow>
      monitor_system fuel e t0 duration interval =
        Some (Inl (if interval < - 9223372036 then OverflowError else ValueError),
              after_read e (initial_state t0))
      \<and> reads (after_read e (initial_state t0)) = 1
      \<and> monitoring (after_read e (initial_state t0)))"
proof (intro conjI impI)
  assume "duration < 0 \<and> 0 < fuel"
  then obtain k where "fuel = Suc k" "duration < 0"
    by (cases fuel) auto
  then show "monitor_system fuel e t0 duration interval =
        Some (Inr [], \<lparr>monitoring = False, data_points = [], now = t0, reads = 0\<rparr>)"
    by (simp add: monitor_system_def initial_state_def)
next
  assume a: "interval < 0 \<and> 0 < duration \<and> \<not> signal e 0 Reading \<and> 0 < fuel"
  then obtain k where k: "fuel = Suc k"
    by (cases fuel) auto
  have sl: "time_sleep e 0 interval
      = Some (if interval < - 9223372036 then OverflowError else ValueError)"
    using a by (simp add: time_sleep_negative)
  show "monitor_system fuel e t0 duration interval =
        Some (Inl (if interval < - 9223372036 then OverflowError else ValueError),
              after_read e (initial_state t0))"
    using a sl unfolding k by (simp add: monitor_system_def initial_state_def Let_def)
next
  show "reads (after_read e (initial_state t0)) = 1"
    by (simp add: after_read_simps initial_state_def)
next
  show "monitoring (after_read e (initial_state t0))"
    by (simp add: after_read_simps initial_state_def)
qed

text \<open>
  The theorem at duration \<open>-1\<close> with interval 5, at duration 10 with interval \<open>-1\<close>, and at
  duration 10 with interval \<open>-10000000000\<close>.
\<close>

theorem no_validation_of_duration_and_interval_witness:
  "monitor_system 1 (steady_env (snapshot 10 10 10 None)) 0 (- 1) 5 =
        Some (Inr [], \<lparr>monitoring = False, data_points = [], now = 0, reads = 0\<rparr>)
   \<and> monitor_system 1 (steady_env (snapshot 10 10 10 None)) 0 10 (- 1) =
        Some (Inl ValueError, after_read (steady_env (snapshot 10 10 10 None)) (initial_state 0))
   \<and> monitor_system 1 (steady_env (snapshot 10 10 10 None)) 0 10 (- 10000000000) =
        Some (Inl OverflowError,
              after_read (steady_env (snapshot 10 10 10 None)) (initial_state 0))"
proof -
  have h: "\<not> signal (steady_env (snapshot 10 10 10 None)) 0 Reading"
    by (simp add: steady_env_def)
  show ?thesis
    using no_validation_of_duration_and_interval
            [of "- 1" 1 "steady_env (snapshot 10 10 10 None)" 0 5]
          no_validation_of_duration_and_interval
            [of 10 1 "steady_env (snapshot 10 10 10 None)" 0 "- 1"]
          no_validation_of_duration_and_interval
            [of 10 1 "steady_env (snapshot 10 10 10 None)" 0 "- 10000000000"] h
    by simp
qed

text \<open>
  Claim C7 as stated fails: a negative duration gives a normal return, and a negative
  interval gives an error only after the provider has been sampled.
\<close>

theorem configuration_error_counterexample:
  "monitor_system 1 (steady_env (snapshot 0 0 0 None)) 0 (- 1) 5 =
        Some (Inr [], \<lparr>monitoring = False, data_points = [], now = 0, reads = 0\<rparr>)
   \<and> monitor_system 1 (steady_env (snapshot 0 0 0 None)) 0 10 (- 1) =
        Some (Inl ValueError,
              \<lparr>monitoring = True, data_points = [new_point 0 (snapshot 0 0 0 None)],
               now = 0, reads = 1\<rparr>)"
  by (simp add: monitor_system_def steady_env_def initial_state_def after_read_def
      time_sleep_def Let_def)

end
